theory Spec2Isabelle
  imports Complex_Main
begin

section \<open>Python text\<close>

text \<open>
  A Python \<^verbatim>\<open>str\<close> is a sequence of Unicode code points, and \<^verbatim>\<open>len\<close>, slicing and
  \<^verbatim>\<open>strip\<close> count code points. The banners of the monitor hold code points above 255,
  so text is a list of code points rather than a list of 8-bit characters.
\<close>

type_synonym pystr = "nat list"

definition lit :: "string \<Rightarrow> pystr" where
  "lit s = map of_char s"

text \<open>The code points for which \<^verbatim>\<open>str.isspace\<close> holds; \<^verbatim>\<open>str.strip()\<close> removes exactly these.\<close>

definition isspace :: "nat \<Rightarrow> bool" where
  "isspace c = (c \<in> set [9, 10, 11, 12, 13, 28, 29, 30, 31, 32, 133, 160, 5760,
     8192, 8193, 8194, 8195, 8196, 8197, 8198, 8199, 8200, 8201, 8202,
     8232, 8233, 8239, 8287, 12288])"

definition strip :: "pystr \<Rightarrow> pystr" where
  "strip s = rev (dropWhile isspace (rev (dropWhile isspace s)))"

text \<open>
  \<^verbatim>\<open>s.split('\n')\<close>: the pieces between line feeds (code point 10). The result is never
  empty: the empty text gives one empty piece.
\<close>

fun split_nl :: "pystr \<Rightarrow> pystr list" where
  "split_nl [] = [[]]"
| "split_nl (c # cs) =
     (if c = 10 then [] # split_nl cs
      else (case split_nl cs of
              [] \<Rightarrow> [[c]]
            | p # ps \<Rightarrow> (c # p) # ps))"

text \<open>Decimal digits of a natural number, \<^verbatim>\<open>str(i)\<close> of an int, and \<^verbatim>\<open>format(i, '2d')\<close>.\<close>

fun digits :: "nat \<Rightarrow> pystr" where
  "digits n = (if n < 10 then [48 + n] else digits (n div 10) @ [48 + n mod 10])"

declare digits.simps [simp del]

definition str_int :: "int \<Rightarrow> pystr" where
  "str_int i = (if i < 0 then 45 # digits (nat (- i)) else digits (nat i))"

definition lpad :: "nat \<Rightarrow> nat \<Rightarrow> pystr \<Rightarrow> pystr" where
  "lpad width fill s = replicate (width - length s) fill @ s"

definition format_2d :: "nat \<Rightarrow> pystr" where
  "format_2d i = lpad 2 32 (digits i)"

text \<open>
  \<^verbatim>\<open>format(x, '.3f')\<close> of a finite float whose exact value is \<open>x\<close>: the value rounded to
  three decimals, ties to even. Infinities, NaN and the sign of a negative zero are not
  values of \<open>real\<close> and are left out.
\<close>

definition round_half_even :: "real \<Rightarrow> int" where
  "round_half_even y =
     (let f = \<lfloor>y\<rfloor>; d = y - of_int f
      in if d < 1 / 2 then f
         else if 1 / 2 < d then f + 1
         else if even f then f else f + 1)"

definition format_3f :: "real \<Rightarrow> pystr" where
  "format_3f x =
     (let m = nat (round_half_even (\<bar>x\<bar> * 1000))
      in (if x < 0 then [45] else []) @ digits (m div 1000) @ [46] @ lpad 3 48 (digits (m mod 1000)))"

section \<open>Colors\<close>

definition Colors_BLUE :: pystr where "Colors_BLUE = 27 # lit ''[94m''"
definition Colors_GREEN :: pystr where "Colors_GREEN = 27 # lit ''[92m''"
definition Colors_YELLOW :: pystr where "Colors_YELLOW = 27 # lit ''[93m''"
definition Colors_BOLD :: pystr where "Colors_BOLD = 27 # lit ''[1m''"
definition Colors_END :: pystr where "Colors_END = 27 # lit ''[0m''"

text \<open>The rule \<^verbatim>\<open>'='*60\<close> of the banners.\<close>

definition rule60 :: pystr where
  "rule60 = replicate 60 61"

section \<open>CellOutputCapture\<close>

text \<open>
  An output target is the capture object itself (\<open>Tee\<close>) or a stream of the process that
  the monitor does not own (\<open>Stream n\<close>). A slot holding Python's \<^verbatim>\<open>None\<close> is \<open>None\<close>.
  What reaches the streams of the process is kept as a log, in order.
\<close>

datatype target = Tee | Stream nat

datatype stream_event = Wrote pystr | Flushed

text \<open>
  The fields of the one \<^verbatim>\<open>CellOutputCapture\<close> instance, together with the two process-wide
  slots \<^verbatim>\<open>sys.stdout\<close> and \<^verbatim>\<open>sys.stderr\<close> that it replaces and the log of the streams.
  The lock makes each method atomic; it shows in the model only where \<^verbatim>\<open>write\<close> would
  acquire it a second time.
\<close>

record capture =
  original_stdout :: "target option"
  original_stderr :: "target option"
  captured_output :: "pystr list"
  is_capturing :: bool
  sys_stdout :: "target option"
  sys_stderr :: "target option"
  emitted :: "(nat \<times> stream_event) list"

definition init_capture :: "target option \<Rightarrow> target option \<Rightarrow> capture" where
  "init_capture out err =
     \<lparr>original_stdout = None, original_stderr = None, captured_output = [],
      is_capturing = False, sys_stdout = out, sys_stderr = err, emitted = []\<rparr>"

definition start_capture :: "capture \<Rightarrow> capture" where
  "start_capture w =
     (if \<not> is_capturing w
      then w\<lparr>original_stdout := sys_stdout w,
             original_stderr := sys_stderr w,
             captured_output := [],
             sys_stdout := Some Tee,
             sys_stderr := Some Tee,
             is_capturing := True\<rparr>
      else w)"

definition stop_capture :: "capture \<Rightarrow> capture \<times> pystr" where
  "stop_capture w =
     (if is_capturing w
      then (w\<lparr>sys_stdout := original_stdout w,
              sys_stderr := original_stderr w,
              is_capturing := False\<rparr>,
            concat (captured_output w))
      else (w, []))"

text \<open>
  \<^verbatim>\<open>write\<close> keeps a chunk that is non-empty and non-blank, and forwards a green, prefixed
  copy to \<^verbatim>\<open>original_stdout\<close> when that slot is set, followed by a flush. A stream object is
  truthy, and a stream of the process accepts every write. When the slot holds the capture
  object itself the forwarding call is \<^verbatim>\<open>write\<close> again, on a non-blank text, while the
  non-reentrant lock is held: the call never returns, which is \<open>None\<close>. (The method is
  \<^verbatim>\<open>write\<close> in the source; that word is reserved here.)
\<close>

definition write_capture :: "capture \<Rightarrow> pystr \<Rightarrow> capture option" where
  "write_capture w text =
     (if text \<noteq> [] \<and> strip text \<noteq> []
      then (case original_stdout w of
              None \<Rightarrow> Some (w\<lparr>captured_output := captured_output w @ [text]\<rparr>)
            | Some Tee \<Rightarrow> None
            | Some (Stream n) \<Rightarrow>
                Some (w\<lparr>captured_output := captured_output w @ [text],
                        emitted := emitted w @
                          [(n, Wrote (Colors_GREEN @ lit ''[REALTIME] '' @ text @ Colors_END)),
                           (n, Flushed)]\<rparr>))
      else Some w)"

text \<open>
  The capture object never stands in its own snapshot, nor in the process stdout while the
  capture is inactive: an invariant of the three methods, under which \<^verbatim>\<open>write\<close> returns.
\<close>

definition no_self_snapshot :: "capture \<Rightarrow> bool" where
  "no_self_snapshot w =
     (original_stdout w \<noteq> Some Tee \<and> (is_capturing w \<or> sys_stdout w \<noteq> Some Tee))"

text \<open>A run of \<^verbatim>\<open>write\<close> calls, and a run of \<^verbatim>\<open>start_capture\<close>/\<^verbatim>\<open>stop_capture\<close> calls.\<close>

fun writes :: "capture \<Rightarrow> pystr list \<Rightarrow> capture option" where
  "writes w [] = Some w"
| "writes w (c # cs) = (case write_capture w c of None \<Rightarrow> None | Some w' \<Rightarrow> writes w' cs)"

datatype call = Start | Stop

fun run_calls :: "capture \<Rightarrow> call list \<Rightarrow> capture" where
  "run_calls w [] = w"
| "run_calls w (Start # cs) = run_calls (start_capture w) cs"
| "run_calls w (Stop # cs) = run_calls (fst (stop_capture w)) cs"

section \<open>Values of the notebook\<close>

text \<open>
  An exception is a value. \<open>Raised n\<close> is an exception of class \<open>n\<close> raised by code that
  belongs to a value (its \<^verbatim>\<open>__str__\<close>), not by the monitor.
\<close>

datatype error = TypeError | ValueError | UnicodeEncodeError | Raised pystr

text \<open>
  A result value as \<^verbatim>\<open>post_run_print\<close> can observe it: whether it is \<^verbatim>\<open>None\<close>, the name of
  its type, and what \<^verbatim>\<open>str()\<close> does on it. Ints and strings are themselves; every other
  object is \<open>PyObj\<close>, with the \<^verbatim>\<open>__name__\<close> of its type and the outcome of its \<^verbatim>\<open>__str__\<close>,
  which is code of the object's class and may raise.

  \<^verbatim>\<open>str()\<close> of an int raises \<^verbatim>\<open>ValueError\<close> when the int has more decimal digits, the sign
  aside, than the interpreter's limit \<^verbatim>\<open>sys.get_int_max_str_digits()\<close>. The limit is the
  argument \<open>max_digits\<close>: 4300 unless configured, and 0 when the interpreter has none.
\<close>

datatype pyvalue = PyNone | PyInt int | PyStr pystr | PyObj pystr "error + pystr"

fun py_str :: "nat \<Rightarrow> pyvalue \<Rightarrow> error + pystr" where
  "py_str max_digits PyNone = Inr (lit ''None'')"
| "py_str max_digits (PyInt i) =
     (if 0 < max_digits \<and> max_digits < length (digits (nat \<bar>i\<bar>))
      then Inl ValueError else Inr (str_int i))"
| "py_str max_digits (PyStr s) = Inr s"
| "py_str max_digits (PyObj tn outcome) = outcome"

fun type_name :: "pyvalue \<Rightarrow> pystr" where
  "type_name PyNone = lit ''NoneType''"
| "type_name (PyInt i) = lit ''int''"
| "type_name (PyStr s) = lit ''str''"
| "type_name (PyObj tn outcome) = tn"

section \<open>The formatters\<close>

text \<open>
  A formatter is a run of \<^verbatim>\<open>print\<close> calls. What \<^verbatim>\<open>print(s)\<close> does on the current
  \<^verbatim>\<open>sys.stdout\<close> is the argument \<open>p\<close>: \<open>p s = None\<close> when the call returns, and \<open>Some e\<close>
  when the write of the stream raises \<open>e\<close>, as a stream does whose encoding lacks a code
  point of \<open>s\<close>. A formatter gives the texts it has printed, in order, and the exception
  that ended it, if any: it has no handler, so the first exception leaves the call.
\<close>

type_synonym printer = "pystr \<Rightarrow> error option"

definition accepting :: printer where
  "accepting s = None"



fun print_lines :: "printer \<Rightarrow> pystr list \<Rightarrow> pystr list \<times> error option" where
  "print_lines p [] = ([], None)"
| "print_lines p (s # rest) =
     (case p s of
        Some e \<Rightarrow> ([], Some e)
      | None \<Rightarrow> (case print_lines p rest of (printed, exc) \<Rightarrow> (s # printed, exc)))"

text \<open>The glyphs of the banners are the code points the source file holds.\<close>

definition pre_run_header :: "pystr list" where
  "pre_run_header =
     [[10] @ Colors_BLUE @ Colors_BOLD @ rule60,
      [240, 376, 353, 8364] @ lit '' PRE-RUN: Cell Content'',
      rule60 @ Colors_END]"

definition pre_run_footer :: "pystr list" where
  "pre_run_footer =
     [Colors_BLUE @ rule60,
      [226, 177, 239, 184] @ lit ''  Execution starting...'',
      rule60 @ Colors_END @ [10]]"

text \<open>
  The loop \<^verbatim>\<open>for i, line in enumerate(lines, 1)\<close>, from index \<open>i\<close> on: the texts of its
  \<^verbatim>\<open>print\<close> calls.
\<close>

fun enumerate_lines :: "nat \<Rightarrow> pystr list \<Rightarrow> pystr list" where
  "enumerate_lines i [] = []"
| "enumerate_lines i (line # rest) =
     (Colors_BLUE @ lit ''['' @ format_2d i @ lit ''] '' @ line @ Colors_END) #
     enumerate_lines (Suc i) rest"

definition pre_run_print :: "printer \<Rightarrow> pystr \<Rightarrow> pystr list \<times> error option" where
  "pre_run_print p cell_content =
     print_lines p
       (pre_run_header @ enumerate_lines 1 (split_nl (strip cell_content)) @ pre_run_footer)"


definition post_run_header :: "pystr list" where
  "post_run_header =
     [[10] @ Colors_YELLOW @ Colors_BOLD @ rule60,
      [226, 339, 8230] @ lit '' POST-RUN: Execution Complete'',
      rule60 @ Colors_END]"

definition post_run_stats :: "real \<Rightarrow> pystr \<Rightarrow> pystr list" where
  "post_run_stats execution_time cell_content =
     [Colors_YELLOW @ [226, 177, 239, 184] @ lit ''  Execution time: '' @
        format_3f execution_time @ lit '' seconds'' @ Colors_END,
      Colors_YELLOW @ [240, 376, 8220] @ lit '' Lines executed: '' @
        str_int (int (length (split_nl (strip cell_content)))) @ Colors_END]"

definition post_run_footer :: "pystr list" where
  "post_run_footer =
     [Colors_YELLOW @ rule60,
      [240, 376, 381, 8240] @ lit '' Cell execution completed successfully!'',
      rule60 @ Colors_END @ [10]]"

text \<open>
  \<^verbatim>\<open>post_run_print\<close>: the header and the two statistics, then \<^verbatim>\<open>str(execution_result)\<close> and
  the cut to 200 characters, then the type line, the preview line under its guard, and
  the footer; for \<^verbatim>\<open>None\<close> the line "No return value" and the footer.
\<close>

definition post_run_print ::
    "printer \<Rightarrow> nat \<Rightarrow> pyvalue \<Rightarrow> real \<Rightarrow> pystr \<Rightarrow> pystr list \<times> error option" where
  "post_run_print p max_digits execution_result execution_time cell_content =
     (case print_lines p (post_run_header @ post_run_stats execution_time cell_content) of
        (printed, Some e) \<Rightarrow> (printed, Some e)
      | (printed, None) \<Rightarrow>
          (if execution_result \<noteq> PyNone
           then (case py_str max_digits execution_result of
                   Inl e \<Rightarrow> (printed, Some e)
                 | Inr s \<Rightarrow>
                     (let result_str =
                            (if length s > 200 then take 200 s @ lit ''...'' else s)
                      in case print_lines p
                             ([Colors_YELLOW @ [240, 376, 8220, 352] @ lit '' Result type: '' @
                                 type_name execution_result @ Colors_END] @
                              (if strip result_str \<noteq> []
                               then [Colors_YELLOW @ [240, 376, 8220, 8249] @
                                       lit '' Result preview: '' @ result_str @ Colors_END]
                               else []) @
                              post_run_footer) of
                           (rest, exc) \<Rightarrow> (printed @ rest, exc)))
           else (case print_lines p
                       ([Colors_YELLOW @ [240, 376, 8220, 352] @ lit '' No return value'' @
                           Colors_END] @
                        post_run_footer) of
                   (rest, exc) \<Rightarrow> (printed @ rest, exc))))"

section \<open>CellExecutionHook\<close>

text \<open>
  \<^verbatim>\<open>print(s)\<close> writes \<open>s\<close> and then the line feed to \<^verbatim>\<open>sys.stdout\<close>, and does nothing when that
  slot is \<^verbatim>\<open>None\<close>. When the slot holds the capture object the two writes are its
  \<^verbatim>\<open>write\<close>. The streams of the process accept every write here, as they do for the
  capture, so the hook runs its formatters with the printer \<open>accepting\<close> and their texts
  go to the log.
\<close>

definition py_print :: "capture \<Rightarrow> pystr \<Rightarrow> capture option" where
  "py_print w s =
     (case sys_stdout w of
        None \<Rightarrow> Some w
      | Some (Stream n) \<Rightarrow> Some (w\<lparr>emitted := emitted w @ [(n, Wrote s), (n, Wrote [10])]\<rparr>)
      | Some Tee \<Rightarrow> (case write_capture w s of None \<Rightarrow> None | Some w' \<Rightarrow> write_capture w' [10]))"

fun print_all :: "capture \<Rightarrow> pystr list \<Rightarrow> capture option" where
  "print_all w [] = Some w"
| "print_all w (s # rest) = (case py_print w s of None \<Rightarrow> None | Some w' \<Rightarrow> print_all w' rest)"

text \<open>
  The shell as the hook sees it: the dict \<^verbatim>\<open>user_ns\<close> and the attribute
  \<^verbatim>\<open>_current_cell_content\<close>, which is unset until a cell has been transformed. The namespace
  holds the float the hook stores (\<open>NsFloat\<close>, by its value) and the values of the notebook
  (\<open>NsValue\<close>).
\<close>

datatype nsvalue = NsFloat real | NsValue pyvalue

record host =
  user_ns :: "pystr \<rightharpoonup> nsvalue"
  current_cell_content :: "pystr option"

definition cell_content_of :: "host \<Rightarrow> pystr" where
  "cell_content_of h =
     (case current_cell_content h of None \<Rightarrow> lit ''No content available'' | Some c \<Rightarrow> c)"

text \<open>
  \<^verbatim>\<open>getattr(d, name, default)\<close> on a dict \<open>d\<close> looks for an attribute of the dict object: one
  of the names of \<^verbatim>\<open>dir(dict)\<close>, a method or slot of the object. The items of \<open>d\<close> are not
  attributes and are never consulted; for any other name the default comes back.
\<close>

definition dict_dir :: "pystr list" where
  "dict_dir = map lit
     [''__class__'', ''__class_getitem__'', ''__contains__'', ''__delattr__'', ''__delitem__'',
      ''__dir__'', ''__doc__'', ''__eq__'', ''__format__'', ''__ge__'', ''__getattribute__'',
      ''__getitem__'', ''__getstate__'', ''__gt__'', ''__hash__'', ''__init__'',
      ''__init_subclass__'', ''__ior__'', ''__iter__'', ''__le__'', ''__len__'', ''__lt__'',
      ''__ne__'', ''__new__'', ''__or__'', ''__reduce__'', ''__reduce_ex__'', ''__repr__'',
      ''__reversed__'', ''__ror__'', ''__setattr__'', ''__setitem__'', ''__sizeof__'',
      ''__str__'', ''__subclasshook__'', ''clear'', ''copy'', ''fromkeys'', ''get'', ''items'',
      ''keys'', ''pop'', ''popitem'', ''setdefault'', ''update'', ''values'']"

datatype 'a attr_lookup = DictAttribute pystr | Default 'a

definition getattr_dict :: "(pystr \<rightharpoonup> nsvalue) \<Rightarrow> pystr \<Rightarrow> 'a \<Rightarrow> 'a attr_lookup" where
  "getattr_dict d name dflt = (if name \<in> set dict_dir then DictAttribute name else Default dflt)"

text \<open>
  A method of the dict as a result value. Its text in Python also holds the address of the
  dict, which is left out; neither name the hook looks up is in \<open>dict_dir\<close>.
\<close>

definition dict_method :: "pystr \<Rightarrow> pyvalue" where
  "dict_method name =
     PyObj (lit ''builtin_function_or_method'')
       (Inr (lit ''<built-in method '' @ name @ lit '' of dict object>''))"

text \<open>
  \<^verbatim>\<open>pre_execute\<close>, with \<open>now\<close> the reading of \<^verbatim>\<open>time.time()\<close>: the shell has a \<^verbatim>\<open>user_ns\<close>, so
  the guard is the flag \<open>active\<close>. The start time is stored as an item of the namespace.
\<close>

definition pre_execute :: "bool \<Rightarrow> host \<Rightarrow> capture \<Rightarrow> real \<Rightarrow> (host \<times> capture) option" where
  "pre_execute active h w now =
     (if active
      then (case print_all w (fst (pre_run_print accepting (cell_content_of h))) of
              None \<Rightarrow> None
            | Some w1 \<Rightarrow>
                Some (h\<lparr>user_ns := (user_ns h)(lit ''_cell_start_time'' \<mapsto> NsFloat now)\<rparr>,
                      start_capture w1))
      else Some (h, w))"

text \<open>
  What \<^verbatim>\<open>post_execute\<close> hands to \<^verbatim>\<open>post_run_print\<close>: the result, the execution time and the
  cell content. \<open>t1\<close> is the reading of \<^verbatim>\<open>time.time()\<close> evaluated as the default of the first
  \<^verbatim>\<open>getattr\<close>, \<open>t2\<close> the reading taken for the subtraction. A float minus a method of the
  dict is a \<^verbatim>\<open>TypeError\<close>.
\<close>

definition post_execute_call :: "host \<Rightarrow> real \<Rightarrow> real \<Rightarrow> error + (pyvalue \<times> real \<times> pystr)" where
  "post_execute_call h t1 t2 =
     (case getattr_dict (user_ns h) (lit ''_cell_start_time'') t1 of
        DictAttribute a \<Rightarrow> Inl TypeError
      | Default start_time \<Rightarrow>
          (let execution_time = t2 - start_time;
               cell_content = cell_content_of h;
               result = (case getattr_dict (user_ns h) (lit ''_'') PyNone of
                           DictAttribute a \<Rightarrow> dict_method a
                         | Default r \<Rightarrow> r)
           in Inr (result, execution_time, cell_content)))"

text \<open>
  \<^verbatim>\<open>post_execute\<close>: the capture is stopped first and its text dropped; the summary goes to
  the restored \<^verbatim>\<open>sys.stdout\<close>. The outcome is the state left and the exception raised, if
  any; \<open>None\<close> when a print never returns. \<open>max_digits\<close> is the digit limit of \<^verbatim>\<open>str()\<close>
  on ints.
\<close>

definition post_execute ::
    "nat \<Rightarrow> bool \<Rightarrow> host \<Rightarrow> capture \<Rightarrow> real \<Rightarrow> real \<Rightarrow> (capture \<times> error option) option" where
  "post_execute max_digits active h w t1 t2 =
     (if active
      then (let w1 = fst (stop_capture w)
            in case post_execute_call h t1 t2 of
                 Inl e \<Rightarrow> Some (w1, Some e)
               | Inr (result, execution_time, cell_content) \<Rightarrow>
                   (case post_run_print accepting max_digits result execution_time cell_content of
                      (printed, exc) \<Rightarrow>
                        (case print_all w1 printed of
                           None \<Rightarrow> None
                         | Some w2 \<Rightarrow> Some (w2, exc))))
      else Some (w, None))"

section \<open>Lifecycle of the capture\<close>

lemma stop_capture_inactive: "\<not> is_capturing w \<Longrightarrow> stop_capture w = (w, [])"
  by (simp add: stop_capture_def)

lemma is_capturing_start [simp]: "is_capturing (start_capture w)"
  by (simp add: start_capture_def)

lemma is_capturing_stop [simp]: "\<not> is_capturing (fst (stop_capture w))"
  by (simp add: stop_capture_def)

text \<open>
  C6. \<^verbatim>\<open>stop_capture\<close> on a capture that is not active returns the empty text and leaves
  every field and both process-wide targets as they were; it has no failing branch.
\<close>

theorem stop_when_inactive_is_noop:
  "\<not> is_capturing w \<Longrightarrow> stop_capture w = (w, [])"
  by (rule stop_capture_inactive)

theorem stop_when_inactive_is_noop_witness:
  "\<not> is_capturing (init_capture (Some (Stream 1)) (Some (Stream 2))) \<and>
   stop_capture (init_capture (Some (Stream 1)) (Some (Stream 2))) =
     (init_capture (Some (Stream 1)) (Some (Stream 2)), [])"
  using stop_when_inactive_is_noop [of "init_capture (Some (Stream 1)) (Some (Stream 2))"]
  by (simp add: init_capture_def)

lemma strip_Nil [simp]: "strip [] = []"
  by (simp add: strip_def)

lemma write_capture_blank: "strip c = [] \<Longrightarrow> write_capture w c = Some w"
  by (simp add: write_capture_def)

lemma write_capture_stream:
  assumes "original_stdout w = Some (Stream n)" and "strip c \<noteq> []"
  shows "write_capture w c =
    Some (w\<lparr>captured_output := captured_output w @ [c],
            emitted := emitted w @
              [(n, Wrote (Colors_GREEN @ lit ''[REALTIME] '' @ c @ Colors_END)), (n, Flushed)]\<rparr>)"
proof -
  from assms(2) have "c \<noteq> []" by auto
  with assms show ?thesis by (simp add: write_capture_def)
qed

lemma write_capture_returns:
  assumes "original_stdout w \<noteq> Some Tee"
  shows "\<exists>w'. write_capture w c = Some w' \<and>
           captured_output w' = captured_output w @ (if strip c \<noteq> [] then [c] else []) \<and>
           original_stdout w' = original_stdout w \<and> original_stderr w' = original_stderr w \<and>
           is_capturing w' = is_capturing w \<and>
           sys_stdout w' = sys_stdout w \<and> sys_stderr w' = sys_stderr w"
proof (cases "strip c = []")
  case True
  then show ?thesis by (simp add: write_capture_blank)
next
  case False
  then have "c \<noteq> []" by auto
  with False assms show ?thesis
    by (cases "original_stdout w") (auto simp: write_capture_def split: target.splits)
qed

lemma writes_returns:
  "original_stdout w \<noteq> Some Tee \<Longrightarrow>
     \<exists>w'. writes w cs = Some w' \<and>
       captured_output w' = captured_output w @ filter (\<lambda>c. strip c \<noteq> []) cs \<and>
       original_stdout w' = original_stdout w \<and> original_stderr w' = original_stderr w \<and>
       is_capturing w' = is_capturing w \<and>
       sys_stdout w' = sys_stdout w \<and> sys_stderr w' = sys_stderr w"
proof (induction cs arbitrary: w)
  case Nil
  then show ?case by simp
next
  case (Cons c cs)
  from write_capture_returns [OF Cons.prems, of c] obtain w1 where
    w1: "write_capture w c = Some w1"
      "captured_output w1 = captured_output w @ (if strip c \<noteq> [] then [c] else [])"
      "original_stdout w1 = original_stdout w" "original_stderr w1 = original_stderr w"
      "is_capturing w1 = is_capturing w"
      "sys_stdout w1 = sys_stdout w" "sys_stderr w1 = sys_stderr w"
    by blast
  from Cons.prems w1(3) have "original_stdout w1 \<noteq> Some Tee" by simp
  from Cons.IH [OF this] obtain w2 where
    w2: "writes w1 cs = Some w2"
      "captured_output w2 = captured_output w1 @ filter (\<lambda>c. strip c \<noteq> []) cs"
      "original_stdout w2 = original_stdout w1" "original_stderr w2 = original_stderr w1"
      "is_capturing w2 = is_capturing w1"
      "sys_stdout w2 = sys_stdout w1" "sys_stderr w2 = sys_stderr w1"
    by blast
  from w1 w2 show ?case by simp
qed

text \<open>
  The invariant holds at the start when the process stdout is not the capture object, and
  every method keeps it; under it \<^verbatim>\<open>write\<close> returns.
\<close>

lemma no_self_snapshot_init: "out \<noteq> Some Tee \<Longrightarrow> no_self_snapshot (init_capture out err)"
  by (simp add: no_self_snapshot_def init_capture_def)

lemma no_self_snapshot_start: "no_self_snapshot w \<Longrightarrow> no_self_snapshot (start_capture w)"
  by (auto simp: no_self_snapshot_def start_capture_def)

lemma no_self_snapshot_stop: "no_self_snapshot w \<Longrightarrow> no_self_snapshot (fst (stop_capture w))"
  by (auto simp: no_self_snapshot_def stop_capture_def)

lemma no_self_snapshot_write:
  "no_self_snapshot w \<Longrightarrow> \<exists>w'. write_capture w c = Some w' \<and> no_self_snapshot w'"
  using write_capture_returns [of w c] by (auto simp: no_self_snapshot_def)

text \<open>
  C3. In a session opened by \<^verbatim>\<open>start_capture\<close> on an inactive capture, with a process
  stdout other than the capture object, every run of \<^verbatim>\<open>write\<close> calls returns, and the
  \<^verbatim>\<open>stop_capture\<close> after it returns the chunks that are non-blank after \<^verbatim>\<open>strip\<close>, joined
  in the order they came. A chunk that is empty or blank changes nothing: it is neither
  kept nor forwarded.
\<close>

theorem stop_returns_nonblank_chunks:
  assumes "\<not> is_capturing w" and "sys_stdout w \<noteq> Some Tee"
  shows "map_option (snd \<circ> stop_capture) (writes (start_capture w) chunks) =
           Some (concat (filter (\<lambda>c. strip c \<noteq> []) chunks)) \<and>
         (\<forall>v c. strip c = [] \<longrightarrow> write_capture v c = Some v)"
proof -
  let ?s = "start_capture w"
  from assms have o: "original_stdout ?s \<noteq> Some Tee" and e: "captured_output ?s = []"
    and a: "is_capturing ?s"
    by (simp_all add: start_capture_def)
  from writes_returns [OF o, of chunks] obtain w' where
    w': "writes ?s chunks = Some w'"
      "captured_output w' = captured_output ?s @ filter (\<lambda>c. strip c \<noteq> []) chunks"
      "is_capturing w' = is_capturing ?s"
    by blast
  with e a have "snd (stop_capture w') = concat (filter (\<lambda>c. strip c \<noteq> []) chunks)"
    by (simp add: stop_capture_def)
  with w'(1) show ?thesis by (simp add: write_capture_blank)
qed

theorem stop_returns_nonblank_chunks_witness:
  "map_option (snd \<circ> stop_capture)
     (writes (start_capture (init_capture (Some (Stream 1)) (Some (Stream 2))))
        [[], lit ''   '', lit ''hello'']) = Some (lit ''hello'') \<and>
   write_capture (start_capture (init_capture (Some (Stream 1)) (Some (Stream 2)))) (lit ''   '')
     = Some (start_capture (init_capture (Some (Stream 1)) (Some (Stream 2))))"
proof -
  let ?w = "init_capture (Some (Stream 1)) (Some (Stream 2))"
  have inactive: "\<not> is_capturing ?w" and other: "sys_stdout ?w \<noteq> Some Tee"
    by (simp_all add: init_capture_def)
  have kept: "concat (filter (\<lambda>c. strip c \<noteq> []) [[], lit ''   '', lit ''hello'']) = lit ''hello''"
    by (simp add: strip_def isspace_def lit_def)
  have blank: "strip (lit ''   '') = []"
    by (simp add: strip_def isspace_def lit_def)
  note session = stop_returns_nonblank_chunks [OF inactive other, of "[[], lit ''   '', lit ''hello'']"]
  from session have "map_option (snd \<circ> stop_capture) (writes (start_capture ?w)
      [[], lit ''   '', lit ''hello'']) = Some (lit ''hello'')"
    unfolding kept by (rule conjunct1)
  moreover from session blank have "write_capture (start_capture ?w) (lit ''   '') = Some (start_capture ?w)"
    by blast
  ultimately show ?thesis by (rule conjI)
qed

lemma run_calls_active:
  "is_capturing (run_calls w cs) = (if cs = [] then is_capturing w else last cs = Start)"
proof (induction cs arbitrary: w)
  case Nil
  then show ?case by simp
next
  case (Cons c cs)
  then show ?case by (cases c) auto
qed

text \<open>
  C4. From the initial state, after any sequence of \<^verbatim>\<open>start_capture\<close> and \<^verbatim>\<open>stop_capture\<close>
  calls, \<^verbatim>\<open>is_capturing\<close> holds exactly when the sequence is non-empty and its last call
  is a start.
\<close>

theorem active_iff_last_call_is_start:
  "is_capturing (run_calls (init_capture out err) cs) \<longleftrightarrow> cs \<noteq> [] \<and> last cs = Start"
  by (simp add: run_calls_active init_capture_def)

theorem active_iff_last_call_is_start_witness:
  "is_capturing (run_calls (init_capture (Some (Stream 1)) (Some (Stream 2))) [Start, Stop, Start]) \<and>
   \<not> is_capturing (run_calls (init_capture (Some (Stream 1)) (Some (Stream 2))) [Start, Start, Stop]) \<and>
   \<not> is_capturing (run_calls (init_capture (Some (Stream 1)) (Some (Stream 2))) [])"
  using active_iff_last_call_is_start [of "Some (Stream 1)" "Some (Stream 2)" "[Start, Stop, Start]"]
    active_iff_last_call_is_start [of "Some (Stream 1)" "Some (Stream 2)" "[Start, Start, Stop]"]
    active_iff_last_call_is_start [of "Some (Stream 1)" "Some (Stream 2)" "[]"]
  by simp

lemma start_capture_active: "is_capturing w \<Longrightarrow> start_capture w = w"
  by (simp add: start_capture_def)

lemma start_capture_inactive:
  "\<not> is_capturing w \<Longrightarrow>
     start_capture w =
       w\<lparr>original_stdout := sys_stdout w, original_stderr := sys_stderr w,
         captured_output := [], sys_stdout := Some Tee, sys_stderr := Some Tee,
         is_capturing := True\<rparr>"
  by (simp add: start_capture_def)

text \<open>
  C5. \<^verbatim>\<open>start_capture\<close> on an active capture changes nothing. On an inactive one it
  snapshots both process targets, empties the sink, installs the capture object as both
  targets and sets the flag; a second start right after keeps the snapshot and the state.
\<close>

theorem start_is_idempotent:
  "(is_capturing w \<longrightarrow> start_capture w = w) \<and>
   (\<not> is_capturing w \<longrightarrow>
      start_capture w =
        w\<lparr>original_stdout := sys_stdout w, original_stderr := sys_stderr w,
          captured_output := [], sys_stdout := Some Tee, sys_stderr := Some Tee,
          is_capturing := True\<rparr> \<and>
      original_stdout (start_capture (start_capture w)) = sys_stdout w \<and>
      original_stderr (start_capture (start_capture w)) = sys_stderr w) \<and>
   start_capture (start_capture w) = start_capture w"
  by (simp add: start_capture_def)

theorem start_is_idempotent_witness:
  "\<not> is_capturing (init_capture (Some (Stream 1)) (Some (Stream 2))) \<and>
   start_capture (init_capture (Some (Stream 1)) (Some (Stream 2))) =
     \<lparr>original_stdout = Some (Stream 1), original_stderr = Some (Stream 2),
      captured_output = [], is_capturing = True,
      sys_stdout = Some Tee, sys_stderr = Some Tee, emitted = []\<rparr> \<and>
   is_capturing (start_capture (init_capture (Some (Stream 1)) (Some (Stream 2)))) \<and>
   start_capture (start_capture (init_capture (Some (Stream 1)) (Some (Stream 2)))) =
     start_capture (init_capture (Some (Stream 1)) (Some (Stream 2))) \<and>
   original_stdout (start_capture (start_capture (init_capture (Some (Stream 1)) (Some (Stream 2)))))
     = Some (Stream 1)"
  using start_is_idempotent [of "init_capture (Some (Stream 1)) (Some (Stream 2))"]
    start_is_idempotent [of "start_capture (init_capture (Some (Stream 1)) (Some (Stream 2)))"]
  by (simp add: init_capture_def)

text \<open>
  C2, as stated, fails: after start, \<^verbatim>\<open>write("hello")\<close> and stop, the sink still holds the
  chunk.
\<close>

theorem stop_clears_sink_counterexample:
  "map_option (captured_output \<circ> fst \<circ> stop_capture)
     (writes (start_capture (init_capture (Some (Stream 1)) (Some (Stream 2)))) [lit ''hello''])
   = Some [lit ''hello'']"
  by (simp add: init_capture_def start_capture_def stop_capture_def write_capture_def
      strip_def isspace_def lit_def)

text \<open>
  C2, amended. \<^verbatim>\<open>stop_capture\<close> leaves the sink as it is; on an active capture it returns
  the chunks of the sink joined, and the sink is emptied by the next \<^verbatim>\<open>start_capture\<close>.
\<close>

theorem stop_returns_and_keeps_sink:
  "captured_output (fst (stop_capture w)) = captured_output w \<and>
   (is_capturing w \<longrightarrow>
      snd (stop_capture w) = concat (captured_output w) \<and>
      captured_output (start_capture (fst (stop_capture w))) = [])"
  by (simp add: stop_capture_def start_capture_def)

theorem stop_returns_and_keeps_sink_witness:
  "is_capturing \<lparr>original_stdout = Some (Stream 1), original_stderr = Some (Stream 2),
      captured_output = [lit ''ab'', lit ''c''], is_capturing = True,
      sys_stdout = Some Tee, sys_stderr = Some Tee, emitted = []\<rparr> \<and>
   snd (stop_capture \<lparr>original_stdout = Some (Stream 1), original_stderr = Some (Stream 2),
      captured_output = [lit ''ab'', lit ''c''], is_capturing = True,
      sys_stdout = Some Tee, sys_stderr = Some Tee, emitted = []\<rparr>) = lit ''abc'' \<and>
   captured_output (fst (stop_capture \<lparr>original_stdout = Some (Stream 1), original_stderr = Some (Stream 2),
      captured_output = [lit ''ab'', lit ''c''], is_capturing = True,
      sys_stdout = Some Tee, sys_stderr = Some Tee, emitted = []\<rparr>)) = [lit ''ab'', lit ''c''] \<and>
   captured_output (start_capture (fst (stop_capture \<lparr>original_stdout = Some (Stream 1), original_stderr = Some (Stream 2),
      captured_output = [lit ''ab'', lit ''c''], is_capturing = True,
      sys_stdout = Some Tee, sys_stderr = Some Tee, emitted = []\<rparr>))) = []"
  using stop_returns_and_keeps_sink [of "\<lparr>original_stdout = Some (Stream 1), original_stderr = Some (Stream 2),
      captured_output = [lit ''ab'', lit ''c''], is_capturing = True,
      sys_stdout = Some Tee, sys_stderr = Some Tee, emitted = []\<rparr>"]
  by (simp add: lit_def)

lemma write_capture_ignores_flag:
  "write_capture (w\<lparr>is_capturing := b\<rparr>) c = map_option (\<lambda>v. v\<lparr>is_capturing := b\<rparr>) (write_capture w c)"
  by (simp add: write_capture_def split: option.splits target.splits)

text \<open>
  C10. \<^verbatim>\<open>write\<close> does not read \<^verbatim>\<open>is_capturing\<close>. With a stream in \<^verbatim>\<open>original_stdout\<close>, a
  non-blank chunk is appended to the sink and a green, prefixed copy is written to that
  stream and flushed, whatever the flag. \<^verbatim>\<open>stop_capture\<close> keeps the snapshot, so the same
  happens after a stop: the chunk joins what the sink held, and only the next
  \<^verbatim>\<open>start_capture\<close> empties it.
\<close>

theorem write_when_inactive_still_records:
  assumes "original_stdout w = Some (Stream n)" and "strip c \<noteq> []"
  shows "write_capture w c =
           Some (w\<lparr>captured_output := captured_output w @ [c],
                   emitted := emitted w @
                     [(n, Wrote (Colors_GREEN @ lit ''[REALTIME] '' @ c @ Colors_END)),
                      (n, Flushed)]\<rparr>) \<and>
         write_capture (w\<lparr>is_capturing := b\<rparr>) c =
           map_option (\<lambda>v. v\<lparr>is_capturing := b\<rparr>) (write_capture w c) \<and>
         \<not> is_capturing (fst (stop_capture w)) \<and>
         original_stdout (fst (stop_capture w)) = Some (Stream n) \<and>
         map_option captured_output (write_capture (fst (stop_capture w)) c) =
           Some (captured_output w @ [c]) \<and>
         map_option emitted (write_capture (fst (stop_capture w)) c) =
           Some (emitted w @
                   [(n, Wrote (Colors_GREEN @ lit ''[REALTIME] '' @ c @ Colors_END)),
                    (n, Flushed)]) \<and>
         map_option (captured_output \<circ> start_capture) (write_capture (fst (stop_capture w)) c) =
           Some []"
proof -
  let ?v = "fst (stop_capture w)"
  have o: "original_stdout ?v = Some (Stream n)"
    using assms(1) by (simp add: stop_capture_def)
  have c: "captured_output ?v = captured_output w" and e: "emitted ?v = emitted w"
    by (simp_all add: stop_capture_def)
  have off: "\<not> is_capturing ?v" by simp
  note here = write_capture_stream [OF assms]
  note later = write_capture_stream [OF o assms(2)]
  show ?thesis
    using o off by (simp add: here later c e write_capture_ignores_flag start_capture_def)
qed

lemma strip_late: "strip (lit ''late'') = lit ''late''"
  by (simp add: strip_def isspace_def lit_def)

theorem write_when_inactive_still_records_witness:
  "original_stdout (fst (stop_capture (start_capture (init_capture (Some (Stream 1)) (Some (Stream 2))))))
     = Some (Stream 1) \<and>
   strip (lit ''late'') \<noteq> [] \<and>
   \<not> is_capturing (fst (stop_capture (start_capture (init_capture (Some (Stream 1)) (Some (Stream 2)))))) \<and>
   write_capture (fst (stop_capture (start_capture (init_capture (Some (Stream 1)) (Some (Stream 2))))))
       (lit ''late'') =
     Some \<lparr>original_stdout = Some (Stream 1), original_stderr = Some (Stream 2),
           captured_output = [lit ''late''], is_capturing = False,
           sys_stdout = Some (Stream 1), sys_stderr = Some (Stream 2),
           emitted = [(1, Wrote (Colors_GREEN @ lit ''[REALTIME] late'' @ Colors_END)),
                      (1, Flushed)]\<rparr>"
proof -
  let ?v = "fst (stop_capture (start_capture (init_capture (Some (Stream 1)) (Some (Stream 2)))))"
  have v: "?v = \<lparr>original_stdout = Some (Stream 1), original_stderr = Some (Stream 2),
           captured_output = [], is_capturing = False,
           sys_stdout = Some (Stream 1), sys_stderr = Some (Stream 2), emitted = []\<rparr>"
    by (simp add: init_capture_def start_capture_def stop_capture_def)
  have o: "original_stdout ?v = Some (Stream 1)" unfolding v by simp
  have n: "strip (lit ''late'') \<noteq> []" unfolding strip_late by (simp add: lit_def)
  from write_when_inactive_still_records [OF o n]
  have "write_capture ?v (lit ''late'') =
      Some (?v\<lparr>captured_output := captured_output ?v @ [lit ''late''],
                   emitted := emitted ?v @
                     [(1, Wrote (Colors_GREEN @ lit ''[REALTIME] '' @ lit ''late'' @ Colors_END)),
                      (1, Flushed)]\<rparr>)"
    by (rule conjunct1)
  then have "write_capture ?v (lit ''late'') =
     Some \<lparr>original_stdout = Some (Stream 1), original_stderr = Some (Stream 2),
           captured_output = [lit ''late''], is_capturing = False,
           sys_stdout = Some (Stream 1), sys_stderr = Some (Stream 2),
           emitted = [(1, Wrote (Colors_GREEN @ lit ''[REALTIME] late'' @ Colors_END)),
                      (1, Flushed)]\<rparr>"
    unfolding v by (simp add: lit_def)
  with o n show ?thesis by simp
qed

section \<open>Printing and text\<close>

lemma print_lines_all_accepted:
  "(\<forall>x \<in> set xs. p x = None) \<Longrightarrow> print_lines p xs = (xs, None)"
  by (induction xs) auto


lemma print_lines_printed:
  "x \<in> set (fst (print_lines p xs)) \<Longrightarrow> x \<in> set xs \<and> p x = None"
  by (induction xs) (auto split: option.splits prod.splits)

lemma print_lines_rejected_first:
  "p x = Some e \<Longrightarrow> print_lines p (x # xs) = ([], Some e)"
  by simp

lemma isspace_ranges:
  "isspace c \<longleftrightarrow>
     (9 \<le> c \<and> c \<le> 13) \<or> (28 \<le> c \<and> c \<le> 32) \<or> c = 133 \<or> c = 160 \<or> c = 5760 \<or>
     (8192 \<le> c \<and> c \<le> 8202) \<or> c = 8232 \<or> c = 8233 \<or> c = 8239 \<or> c = 8287 \<or> c = 12288"
  unfolding isspace_def list.set insert_iff empty_iff by arith

lemma strip_tail:
  "dropWhile isspace c = strip c @ rev (takeWhile isspace (rev (dropWhile isspace c)))"
proof -
  let ?d = "dropWhile isspace c"
  have "rev ?d = takeWhile isspace (rev ?d) @ dropWhile isspace (rev ?d)"
    by (simp only: takeWhile_dropWhile_id)
  then have "rev (rev ?d) = rev (takeWhile isspace (rev ?d) @ dropWhile isspace (rev ?d))"
    by (rule arg_cong)
  then show ?thesis
    by (simp only: rev_rev_ident rev_append strip_def)
qed

lemma strip_parts:
  "c = takeWhile isspace c @ strip c @ rev (takeWhile isspace (rev (dropWhile isspace c)))"
proof -
  have "c = takeWhile isspace c @ dropWhile isspace c"
    by (simp only: takeWhile_dropWhile_id)
  with strip_tail [of c] show ?thesis by (simp only:)
qed

lemma strip_surrounded:
  "\<exists>l r. c = l @ strip c @ r \<and> (\<forall>x \<in> set l. isspace x) \<and> (\<forall>x \<in> set r. isspace x)"
proof (intro exI conjI)
  show "c = takeWhile isspace c @ strip c @ rev (takeWhile isspace (rev (dropWhile isspace c)))"
    by (rule strip_parts)
  show "\<forall>x \<in> set (takeWhile isspace c). isspace x"
    by (auto dest: set_takeWhileD)
  show "\<forall>x \<in> set (rev (takeWhile isspace (rev (dropWhile isspace c)))). isspace x"
    by (auto dest: set_takeWhileD)
qed

lemma strip_ends:
  assumes "strip c \<noteq> []"
  shows "\<not> isspace (hd (strip c)) \<and> \<not> isspace (last (strip c))"
proof
  let ?d = "dropWhile isspace c"
  let ?e = "dropWhile isspace (rev ?d)"
  from assms have e: "?e \<noteq> []" by (simp add: strip_def)
  have d: "?d \<noteq> []"
  proof
    assume "?d = []"
    then have "?e = []" by (simp only: rev.simps dropWhile.simps)
    with e show False by (rule notE)
  qed
  have "strip c = rev ?e" by (simp only: strip_def)
  then have "last (strip c) = hd ?e" using e by (simp only: last_rev)
  then show "\<not> isspace (last (strip c))" using hd_dropWhile [OF e] by simp
  from strip_tail [of c] assms have "hd ?d = hd (strip c)" by (metis hd_append2)
  then show "\<not> isspace (hd (strip c))" using hd_dropWhile [OF d] by simp
qed

lemma split_nl_nonempty [simp]: "split_nl s \<noteq> []"
  by (induction s) (auto split: list.splits)

lemma length_split_nl: "length (split_nl s) = Suc (count_list s 10)"
  by (induction s) (auto split: list.splits)

lemma split_nl_no_lf: "q \<in> set (split_nl s) \<Longrightarrow> 10 \<notin> set q"
  by (induction s arbitrary: q) (auto split: list.splits if_splits)

lemma split_nl_join: "concat (map ((#) 10) (split_nl s)) = 10 # s"
  by (induction s) (auto split: list.splits)

lemma length_enumerate_lines [simp]: "length (enumerate_lines i ps) = length ps"
  by (induction ps arbitrary: i) auto

lemma nth_enumerate_lines:
  "k < length ps \<Longrightarrow>
     enumerate_lines i ps ! k =
       Colors_BLUE @ lit ''['' @ format_2d (i + k) @ lit ''] '' @ ps ! k @ Colors_END"
proof (induction ps arbitrary: i k)
  case Nil
  then show ?case by simp
next
  case (Cons q ps)
  then show ?case by (cases k) auto
qed

lemma enumerate_lines_map:
  "enumerate_lines 1 ps =
     map (\<lambda>k. Colors_BLUE @ lit ''['' @ format_2d (Suc k) @ lit ''] '' @ ps ! k @ Colors_END)
       [0..<length ps]"
  by (rule nth_equalityI) (simp_all add: nth_enumerate_lines)

lemma length_digits: "1 \<le> length (digits n)"
  by (induction n rule: digits.induct) (subst digits.simps, simp)

lemma digits_nonempty [simp]: "digits n \<noteq> []"
  using length_digits [of n] by auto

lemma digits_value: "foldl (\<lambda>a d. 10 * a + (d - 48)) 0 (digits n) = n"
  by (induction n rule: digits.induct) (subst digits.simps, simp)

lemma digits_range: "d \<in> set (digits n) \<Longrightarrow> 48 \<le> d \<and> d \<le> 57"
proof (induction n rule: digits.induct)
  case (1 n)
  from "1.prems" have "d \<in> set (if n < 10 then [48 + n] else digits (n div 10) @ [48 + n mod 10])"
    by (subst (asm) digits.simps)
  with "1.IH" show ?case by (auto split: if_splits)
qed

lemma digits_leading: "hd (digits n) = 48 \<longleftrightarrow> n = 0"
proof (induction n rule: digits.induct)
  case (1 n)
  show ?case
  proof (cases "n < 10")
    case True
    then show ?thesis by (subst digits.simps) simp
  next
    case False
    with "1.IH" have "hd (digits (n div 10)) \<noteq> 48" by simp
    with False show ?thesis by (subst digits.simps) simp
  qed
qed

lemma format_2d_cases: "format_2d i = (if i < 10 then [32, 48 + i] else digits i)"
proof (cases "i < 10")
  case True
  then show ?thesis by (simp add: format_2d_def lpad_def digits.simps)
next
  case False
  then have "2 \<le> length (digits i)"
    using length_digits [of "i div 10"] by (subst digits.simps) simp
  with False show ?thesis by (simp add: format_2d_def lpad_def)
qed

lemma format_2d_width: "2 \<le> length (format_2d i)"
  by (simp add: format_2d_def lpad_def)

lemma pre_run_print_accepted:
  assumes "\<forall>x. p x = None"
  shows "pre_run_print p c =
     (pre_run_header @
      map (\<lambda>k. Colors_BLUE @ lit ''['' @ format_2d (Suc k) @ lit ''] '' @
                 split_nl (strip c) ! k @ Colors_END)
        [0..<length (split_nl (strip c))] @
      pre_run_footer, None)"
  unfolding pre_run_print_def enumerate_lines_map [symmetric]
  using assms by (intro print_lines_all_accepted) simp

section \<open>What the formatters print\<close>

text \<open>
  C8. On a stream that takes every text, \<^verbatim>\<open>pre_run_print\<close> prints, between its header and
  footer, one line per piece of the stripped cell text split at line feeds: line \<open>k\<close> (from
  0) is blue, and holds the index \<open>k + 1\<close> in brackets, a space and piece \<open>k\<close>. The pieces
  are one more than the line feeds of the stripped text, hold no line feed, and joined by
  line feeds give the stripped text back. The stripped text is the cell text without its
  leading and trailing whitespace, and whitespace is what \<^verbatim>\<open>str.isspace\<close> says. The index is
  at least two characters wide: a space and the digit below 10, the decimal digits from 10
  on.
\<close>

theorem pre_run_print_indexes_lines:
  "((\<forall>x. p x = None) \<longrightarrow>
      pre_run_print p c =
        (pre_run_header @
         map (\<lambda>k. Colors_BLUE @ lit ''['' @ format_2d (Suc k) @ lit ''] '' @
                    split_nl (strip c) ! k @ Colors_END)
           [0..<length (split_nl (strip c))] @
         pre_run_footer, None)) \<and>
   Colors_BLUE = [27, 91, 57, 52, 109] \<and> Colors_END = [27, 91, 48, 109] \<and>
   lit ''['' = [91] \<and> lit ''] '' = [93, 32] \<and>
   length (split_nl (strip c)) = Suc (count_list (strip c) 10) \<and>
   (\<forall>q \<in> set (split_nl (strip c)). 10 \<notin> set q) \<and>
   concat (map ((#) 10) (split_nl (strip c))) = 10 # strip c \<and>
   (\<exists>l r. c = l @ strip c @ r \<and> (\<forall>x \<in> set l. isspace x) \<and> (\<forall>x \<in> set r. isspace x)) \<and>
   (strip c \<noteq> [] \<longrightarrow> \<not> isspace (hd (strip c)) \<and> \<not> isspace (last (strip c))) \<and>
   (\<forall>x. isspace x \<longleftrightarrow>
      (9 \<le> x \<and> x \<le> 13) \<or> (28 \<le> x \<and> x \<le> 32) \<or> x = 133 \<or> x = 160 \<or> x = 5760 \<or>
      (8192 \<le> x \<and> x \<le> 8202) \<or> x = 8232 \<or> x = 8233 \<or> x = 8239 \<or> x = 8287 \<or>
      x = 12288) \<and>
   (\<forall>i. 2 \<le> length (format_2d i) \<and>
        format_2d i = (if i < 10 then [32, 48 + i] else digits i) \<and>
        foldl (\<lambda>a d. 10 * a + (d - 48)) 0 (digits i) = i \<and>
        (\<forall>d \<in> set (digits i). 48 \<le> d \<and> d \<le> 57) \<and>
        (hd (digits i) = 48 \<longleftrightarrow> i = 0))"
proof -
  have printed: "(\<forall>x. p x = None) \<longrightarrow>
      pre_run_print p c =
        (pre_run_header @
         map (\<lambda>k. Colors_BLUE @ lit ''['' @ format_2d (Suc k) @ lit ''] '' @
                    split_nl (strip c) ! k @ Colors_END)
           [0..<length (split_nl (strip c))] @
         pre_run_footer, None)"
    using pre_run_print_accepted [of p c] by blast
  have glyphs: "Colors_BLUE = [27, 91, 57, 52, 109]" "Colors_END = [27, 91, 48, 109]"
    "lit ''['' = [91]" "lit ''] '' = [93, 32]"
    by (simp_all add: Colors_BLUE_def Colors_END_def lit_def)
  have pieces: "length (split_nl (strip c)) = Suc (count_list (strip c) 10)"
    "\<forall>q \<in> set (split_nl (strip c)). 10 \<notin> set q"
    "concat (map ((#) 10) (split_nl (strip c))) = 10 # strip c"
    using split_nl_no_lf [of _ "strip c"]
    by (simp_all only: length_split_nl split_nl_join) blast
  have trimmed:
    "\<exists>l r. c = l @ strip c @ r \<and> (\<forall>x \<in> set l. isspace x) \<and> (\<forall>x \<in> set r. isspace x)"
    "strip c \<noteq> [] \<longrightarrow> \<not> isspace (hd (strip c)) \<and> \<not> isspace (last (strip c))"
    using strip_surrounded [of c] strip_ends [of c] by blast+
  have space: "\<forall>x. isspace x \<longleftrightarrow>
      (9 \<le> x \<and> x \<le> 13) \<or> (28 \<le> x \<and> x \<le> 32) \<or> x = 133 \<or> x = 160 \<or> x = 5760 \<or>
      (8192 \<le> x \<and> x \<le> 8202) \<or> x = 8232 \<or> x = 8233 \<or> x = 8239 \<or> x = 8287 \<or>
      x = 12288"
    by (rule allI) (rule isspace_ranges)
  have index: "\<forall>i. 2 \<le> length (format_2d i) \<and>
        format_2d i = (if i < 10 then [32, 48 + i] else digits i) \<and>
        foldl (\<lambda>a d. 10 * a + (d - 48)) 0 (digits i) = i \<and>
        (\<forall>d \<in> set (digits i). 48 \<le> d \<and> d \<le> 57) \<and>
        (hd (digits i) = 48 \<longleftrightarrow> i = 0)"
    using format_2d_width format_2d_cases digits_value digits_range digits_leading
    by (intro allI conjI ballI) blast+
  from printed glyphs pieces trimmed space index show ?thesis
    by (intro conjI)
qed

lemma accepting_all: "\<forall>x. accepting x = None"
  by (simp add: accepting_def)

lemma strip_abc:
  "strip (lit ''a'' @ [10] @ lit ''b'' @ [10] @ lit ''c'') = lit ''a'' @ [10] @ lit ''b'' @ [10] @ lit ''c''"
  "strip (lit ''  a'' @ [10] @ lit ''b'' @ [10] @ lit ''c '' @ [10]) = lit ''a'' @ [10] @ lit ''b'' @ [10] @ lit ''c''"
  by (simp_all add: strip_def isspace_def lit_def)

lemma split_abc:
  "split_nl (lit ''a'' @ [10] @ lit ''b'' @ [10] @ lit ''c'') = [lit ''a'', lit ''b'', lit ''c'']"
  by (simp add: lit_def)

lemma upt_3: "[0..<length [x, y, z]] = [0, 1, 2]"
  by (simp add: upt_rec)

theorem pre_run_print_indexes_lines_witness:
  "pre_run_print accepting (lit ''a'' @ [10] @ lit ''b'' @ [10] @ lit ''c'') =
     (pre_run_header @
      [[27, 91, 57, 52, 109] @ lit ''[ 1] a'' @ [27, 91, 48, 109],
       [27, 91, 57, 52, 109] @ lit ''[ 2] b'' @ [27, 91, 48, 109],
       [27, 91, 57, 52, 109] @ lit ''[ 3] c'' @ [27, 91, 48, 109]] @
      pre_run_footer, None) \<and>
   pre_run_print accepting (lit ''  a'' @ [10] @ lit ''b'' @ [10] @ lit ''c '' @ [10]) =
     (pre_run_header @
      [[27, 91, 57, 52, 109] @ lit ''[ 1] a'' @ [27, 91, 48, 109],
       [27, 91, 57, 52, 109] @ lit ''[ 2] b'' @ [27, 91, 48, 109],
       [27, 91, 57, 52, 109] @ lit ''[ 3] c'' @ [27, 91, 48, 109]] @
      pre_run_footer, None) \<and>
   format_2d 1 = lit '' 1'' \<and> format_2d 2 = lit '' 2'' \<and> format_2d 3 = lit '' 3'' \<and>
   format_2d 12 = lit ''12''"
proof -
  let ?c = "lit ''a'' @ [10] @ lit ''b'' @ [10] @ lit ''c''"
  let ?d = "lit ''  a'' @ [10] @ lit ''b'' @ [10] @ lit ''c '' @ [10]"
  note plain = pre_run_print_indexes_lines [of accepting ?c, unfolded strip_abc split_abc upt_3]
  note padded = pre_run_print_indexes_lines [of accepting ?d, unfolded strip_abc split_abc upt_3]
  from plain have fmt: "\<forall>i. format_2d i = (if i < 10 then [32, 48 + i] else digits i)"
    by blast
  have f: "format_2d 1 = lit '' 1''" "format_2d 2 = lit '' 2''" "format_2d 3 = lit '' 3''"
    "format_2d 12 = lit ''12''"
    using fmt by (simp_all add: lit_def digits.simps)
  from plain accepting_all have "pre_run_print accepting ?c =
        (pre_run_header @
         map (\<lambda>k. Colors_BLUE @ lit ''['' @ format_2d (Suc k) @ lit ''] '' @
                    [lit ''a'', lit ''b'', lit ''c''] ! k @ Colors_END) [0, 1, 2] @
         pre_run_footer, None)"
    by blast
  moreover from padded accepting_all have "pre_run_print accepting ?d =
        (pre_run_header @
         map (\<lambda>k. Colors_BLUE @ lit ''['' @ format_2d (Suc k) @ lit ''] '' @
                    [lit ''a'', lit ''b'', lit ''c''] ! k @ Colors_END) [0, 1, 2] @
         pre_run_footer, None)"
    by blast
  moreover from plain have "Colors_BLUE = [27, 91, 57, 52, 109]" "Colors_END = [27, 91, 48, 109]"
    by blast+
  ultimately show ?thesis
    using f by (simp add: lit_def numeral_2_eq_2 numeral_3_eq_3)
qed

lemma strip_eq_Nil_iff: "strip s = [] \<longleftrightarrow> (\<forall>c \<in> set s. isspace c)"
proof
  assume blank: "strip s = []"
  from strip_surrounded [of s] obtain l r where
    "s = l @ strip s @ r" "\<forall>x \<in> set l. isspace x" "\<forall>x \<in> set r. isspace x"
    by blast
  with blank have "set s = set l \<union> set r" by (metis append_Nil set_append)
  with \<open>\<forall>x \<in> set l. isspace x\<close> \<open>\<forall>x \<in> set r. isspace x\<close>
  show "\<forall>c \<in> set s. isspace c" by blast
next
  assume "\<forall>c \<in> set s. isspace c"
  then have "dropWhile isspace s = []" by (simp only: dropWhile_eq_Nil_conv)
  then show "strip s = []"
    unfolding strip_def by (simp only: rev.simps dropWhile.simps)
qed

lemma rule60_Cons: "rule60 = 61 # replicate 59 61"
proof -
  have "(60::nat) = Suc 59" by simp
  then show ?thesis unfolding rule60_def by (simp only: replicate_Suc)
qed

lemmas line_defs = post_run_header_def post_run_stats_def post_run_footer_def
  Colors_YELLOW_def Colors_BOLD_def Colors_END_def rule60_Cons lit_def

lemma post_run_print_none:
  assumes "\<forall>x. p x = None"
  shows "post_run_print p max_digits PyNone t c =
     (post_run_header @ post_run_stats t c @
      [Colors_YELLOW @ [240, 376, 8220, 352] @ lit '' No return value'' @ Colors_END] @
      post_run_footer, None)"
  using assms by (simp add: post_run_print_def print_lines_all_accepted)

lemma post_run_print_value:
  assumes "\<forall>x. p x = None" and "r \<noteq> PyNone" and "py_str max_digits r = Inr s"
  shows "post_run_print p max_digits r t c =
     (post_run_header @ post_run_stats t c @
      [Colors_YELLOW @ [240, 376, 8220, 352] @ lit '' Result type: '' @ type_name r @
         Colors_END] @
      (if \<forall>ch \<in> set (if 200 < length s then take 200 s @ lit ''...'' else s). isspace ch
       then []
       else [Colors_YELLOW @ [240, 376, 8220, 8249] @ lit '' Result preview: '' @
               (if 200 < length s then take 200 s @ lit ''...'' else s) @ Colors_END]) @
      post_run_footer, None)"
  using assms
  by (simp add: post_run_print_def print_lines_all_accepted Let_def strip_eq_Nil_iff
      del: set_append)


lemma post_run_print_none_printed:
  assumes "x \<in> set (fst (post_run_print p max_digits PyNone t c))"
  shows "x \<in> set (post_run_header @ post_run_stats t c @
      [Colors_YELLOW @ [240, 376, 8220, 352] @ lit '' No return value'' @ Colors_END] @
      post_run_footer)"
proof -
  let ?a = "post_run_header @ post_run_stats t c"
  let ?b = "[Colors_YELLOW @ [240, 376, 8220, 352] @ lit '' No return value'' @ Colors_END] @
      post_run_footer"
  from assms have "x \<in> set (fst (print_lines p ?a)) \<or> x \<in> set (fst (print_lines p ?b))"
    by (auto simp: post_run_print_def split: prod.splits option.splits)
  then have "x \<in> set ?a \<or> x \<in> set ?b"
    using print_lines_printed [of x p ?a] print_lines_printed [of x p ?b] by blast
  then show ?thesis by auto
qed

lemma no_type_line_when_none:
  "Colors_YELLOW @ [240, 376, 8220, 352] @ lit '' Result type: '' @ tn @ Colors_END
     \<notin> set (fst (post_run_print p max_digits PyNone t c))"
proof
  assume "Colors_YELLOW @ [240, 376, 8220, 352] @ lit '' Result type: '' @ tn @ Colors_END
     \<in> set (fst (post_run_print p max_digits PyNone t c))"
  from post_run_print_none_printed [OF this] show False
    by (simp add: line_defs)
qed

text \<open>
  C7, as stated, fails: the empty string is a result other than \<^verbatim>\<open>None\<close>, and
  \<^verbatim>\<open>post_run_print\<close> prints its type line and no preview line.
\<close>

theorem preview_line_always_counterexample:
  "post_run_print accepting 4300 (PyStr []) 0 (lit ''x'') =
     (post_run_header @ post_run_stats 0 (lit ''x'') @
      [Colors_YELLOW @ [240, 376, 8220, 352] @ lit '' Result type: str'' @ Colors_END] @
      post_run_footer, None) \<and>
   Colors_YELLOW @ [240, 376, 8220, 8249] @ lit '' Result preview: '' @ Colors_END
     \<notin> set (fst (post_run_print accepting 4300 (PyStr []) 0 (lit ''x'')))"
  by (simp add: post_run_print_value [OF accepting_all] line_defs)

text \<open>
  C7, amended. For \<^verbatim>\<open>None\<close>, \<^verbatim>\<open>post_run_print\<close> prints no type line and, on a stream that
  takes every text, the line "No return value". For any other result whose \<^verbatim>\<open>str()\<close>
  returns \<open>s\<close> it prints the type line with the name of the result's type, and then the
  preview line unless every character of the preview is whitespace. The preview is \<open>s\<close>
  when \<open>s\<close> has at most 200 characters, and the first 200 followed by three dots
  otherwise.
\<close>

theorem post_run_print_result_report:
  "(\<forall>tn. Colors_YELLOW @ [240, 376, 8220, 352] @ lit '' Result type: '' @ tn @ Colors_END
          \<notin> set (fst (post_run_print p max_digits PyNone t c))) \<and>
   ((\<forall>x. p x = None) \<longrightarrow>
      post_run_print p max_digits PyNone t c =
        (post_run_header @ post_run_stats t c @
         [Colors_YELLOW @ [240, 376, 8220, 352] @ lit '' No return value'' @ Colors_END] @
         post_run_footer, None) \<and>
      (r \<noteq> PyNone \<and> py_str max_digits r = Inr s \<longrightarrow>
         post_run_print p max_digits r t c =
           (post_run_header @ post_run_stats t c @
            [Colors_YELLOW @ [240, 376, 8220, 352] @ lit '' Result type: '' @ type_name r @
               Colors_END] @
            (if \<forall>ch \<in> set (if 200 < length s then take 200 s @ lit ''...'' else s). isspace ch
             then []
             else [Colors_YELLOW @ [240, 376, 8220, 8249] @ lit '' Result preview: '' @
                     (if 200 < length s then take 200 s @ lit ''...'' else s) @ Colors_END]) @
            post_run_footer, None))) \<and>
   type_name (PyInt i) = [105, 110, 116] \<and> type_name (PyStr u) = [115, 116, 114] \<and>
   type_name (PyObj tn outcome) = tn \<and>
   py_str max_digits (PyStr u) = Inr u \<and> py_str max_digits (PyObj tn outcome) = outcome \<and>
   Colors_YELLOW = [27, 91, 57, 51, 109] \<and> Colors_END = [27, 91, 48, 109] \<and>
   lit ''...'' = [46, 46, 46] \<and>
   lit '' Result type: '' = [32, 82, 101, 115, 117, 108, 116, 32, 116, 121, 112, 101, 58, 32] \<and>
   lit '' Result preview: '' =
     [32, 82, 101, 115, 117, 108, 116, 32, 112, 114, 101, 118, 105, 101, 119, 58, 32] \<and>
   lit '' No return value'' =
     [32, 78, 111, 32, 114, 101, 116, 117, 114, 110, 32, 118, 97, 108, 117, 101]"
proof -
  have none: "\<forall>tn. Colors_YELLOW @ [240, 376, 8220, 352] @ lit '' Result type: '' @ tn @ Colors_END
          \<notin> set (fst (post_run_print p max_digits PyNone t c))"
    by (rule allI) (rule no_type_line_when_none)
  have report: "(\<forall>x. p x = None) \<longrightarrow>
      post_run_print p max_digits PyNone t c =
        (post_run_header @ post_run_stats t c @
         [Colors_YELLOW @ [240, 376, 8220, 352] @ lit '' No return value'' @ Colors_END] @
         post_run_footer, None) \<and>
      (r \<noteq> PyNone \<and> py_str max_digits r = Inr s \<longrightarrow>
         post_run_print p max_digits r t c =
           (post_run_header @ post_run_stats t c @
            [Colors_YELLOW @ [240, 376, 8220, 352] @ lit '' Result type: '' @ type_name r @
               Colors_END] @
            (if \<forall>ch \<in> set (if 200 < length s then take 200 s @ lit ''...'' else s). isspace ch
             then []
             else [Colors_YELLOW @ [240, 376, 8220, 8249] @ lit '' Result preview: '' @
                     (if 200 < length s then take 200 s @ lit ''...'' else s) @ Colors_END]) @
            post_run_footer, None))"
    using post_run_print_none [of p max_digits t c] post_run_print_value [of p r max_digits s t c]
    by blast
  have names: "type_name (PyInt i) = [105, 110, 116]" "type_name (PyStr u) = [115, 116, 114]"
    "type_name (PyObj tn outcome) = tn"
    "py_str max_digits (PyStr u) = Inr u" "py_str max_digits (PyObj tn outcome) = outcome"
    by (simp_all add: lit_def)
  have glyphs: "Colors_YELLOW = [27, 91, 57, 51, 109]" "Colors_END = [27, 91, 48, 109]"
    "lit ''...'' = [46, 46, 46]"
    "lit '' Result type: '' = [32, 82, 101, 115, 117, 108, 116, 32, 116, 121, 112, 101, 58, 32]"
    "lit '' Result preview: '' =
       [32, 82, 101, 115, 117, 108, 116, 32, 112, 114, 101, 118, 105, 101, 119, 58, 32]"
    "lit '' No return value'' =
       [32, 78, 111, 32, 114, 101, 116, 117, 114, 110, 32, 118, 97, 108, 117, 101]"
    by (simp_all add: Colors_YELLOW_def Colors_END_def lit_def)
  from none report names glyphs show ?thesis by (intro conjI)
qed

lemma py_str_42: "py_str 4300 (PyInt 42) = Inr (lit ''42'')"
  by (simp add: str_int_def digits.simps lit_def)

lemma isspace_32: "isspace 32" and not_isspace_x: "\<not> isspace 120" and not_isspace_dot: "\<not> isspace 46"
  and not_isspace_4: "\<not> isspace 52"
  by (simp_all add: isspace_def)

theorem post_run_print_result_report_witness:
  "post_run_print accepting 4300 (PyInt 42) 0 (lit ''x'') =
     (post_run_header @ post_run_stats 0 (lit ''x'') @
      [[27, 91, 57, 51, 109] @ [240, 376, 8220, 352] @ lit '' Result type: int'' @
         [27, 91, 48, 109],
       [27, 91, 57, 51, 109] @ [240, 376, 8220, 8249] @ lit '' Result preview: 42'' @
         [27, 91, 48, 109]] @
      post_run_footer, None) \<and>
   post_run_print accepting 4300 (PyStr (replicate 250 120)) 0 (lit ''x'') =
     (post_run_header @ post_run_stats 0 (lit ''x'') @
      [[27, 91, 57, 51, 109] @ [240, 376, 8220, 352] @ lit '' Result type: str'' @
         [27, 91, 48, 109],
       [27, 91, 57, 51, 109] @ [240, 376, 8220, 8249] @ lit '' Result preview: '' @
         replicate 200 120 @ lit ''...'' @ [27, 91, 48, 109]] @
      post_run_footer, None) \<and>
   post_run_print accepting 4300 (PyStr (replicate 250 32)) 0 (lit ''x'') =
     (post_run_header @ post_run_stats 0 (lit ''x'') @
      [[27, 91, 57, 51, 109] @ [240, 376, 8220, 352] @ lit '' Result type: str'' @
         [27, 91, 48, 109],
       [27, 91, 57, 51, 109] @ [240, 376, 8220, 8249] @ lit '' Result preview: '' @
         replicate 200 32 @ lit ''...'' @ [27, 91, 48, 109]] @
      post_run_footer, None) \<and>
   post_run_print accepting 4300 (PyStr (lit ''  '')) 0 (lit ''x'') =
     (post_run_header @ post_run_stats 0 (lit ''x'') @
      [[27, 91, 57, 51, 109] @ [240, 376, 8220, 352] @ lit '' Result type: str'' @
         [27, 91, 48, 109]] @
      post_run_footer, None)"
proof -
  note int = post_run_print_result_report
    [of accepting 4300 0 "lit ''x''" "PyInt 42" "lit ''42''" 42 "[]" "[]" "Inr []"]
  note long = post_run_print_result_report
    [of accepting 4300 0 "lit ''x''" "PyStr (replicate 250 120)" "replicate 250 120" 42
       "replicate 250 120" "[]" "Inr []"]
  note spaces = post_run_print_result_report
    [of accepting 4300 0 "lit ''x''" "PyStr (replicate 250 32)" "replicate 250 32" 42
       "replicate 250 32" "[]" "Inr []"]
  note blank = post_run_print_result_report
    [of accepting 4300 0 "lit ''x''" "PyStr (lit ''  '')" "lit ''  ''" 42 "lit ''  ''" "[]" "Inr []"]
  have glyphs: "Colors_YELLOW = [27, 91, 57, 51, 109]" "Colors_END = [27, 91, 48, 109]"
    using int by blast+
  have "post_run_print accepting 4300 (PyInt 42) 0 (lit ''x'') =
     (post_run_header @ post_run_stats 0 (lit ''x'') @
      [[27, 91, 57, 51, 109] @ [240, 376, 8220, 352] @ lit '' Result type: int'' @
         [27, 91, 48, 109],
       [27, 91, 57, 51, 109] @ [240, 376, 8220, 8249] @ lit '' Result preview: 42'' @
         [27, 91, 48, 109]] @
      post_run_footer, None)"
    using int accepting_all py_str_42 not_isspace_4
    by (simp add: glyphs [symmetric]) (simp add: lit_def)
  moreover have "post_run_print accepting 4300 (PyStr (replicate 250 120)) 0 (lit ''x'') =
     (post_run_header @ post_run_stats 0 (lit ''x'') @
      [[27, 91, 57, 51, 109] @ [240, 376, 8220, 352] @ lit '' Result type: str'' @
         [27, 91, 48, 109],
       [27, 91, 57, 51, 109] @ [240, 376, 8220, 8249] @ lit '' Result preview: '' @
         replicate 200 120 @ lit ''...'' @ [27, 91, 48, 109]] @
      post_run_footer, None)"
    using long accepting_all not_isspace_x
    by (simp add: glyphs [symmetric]) (simp add: lit_def)
  moreover have "post_run_print accepting 4300 (PyStr (replicate 250 32)) 0 (lit ''x'') =
     (post_run_header @ post_run_stats 0 (lit ''x'') @
      [[27, 91, 57, 51, 109] @ [240, 376, 8220, 352] @ lit '' Result type: str'' @
         [27, 91, 48, 109],
       [27, 91, 57, 51, 109] @ [240, 376, 8220, 8249] @ lit '' Result preview: '' @
         replicate 200 32 @ lit ''...'' @ [27, 91, 48, 109]] @
      post_run_footer, None)"
    using spaces accepting_all not_isspace_dot
    by (simp add: glyphs [symmetric]) (simp add: lit_def)
  moreover have "post_run_print accepting 4300 (PyStr (lit ''  '')) 0 (lit ''x'') =
     (post_run_header @ post_run_stats 0 (lit ''x'') @
      [[27, 91, 57, 51, 109] @ [240, 376, 8220, 352] @ lit '' Result type: str'' @
         [27, 91, 48, 109]] @
      post_run_footer, None)"
    using blank accepting_all isspace_32
    by (simp add: glyphs [symmetric]) (simp add: lit_def)
  ultimately show ?thesis by (intro conjI)
qed


















section \<open>The hook\<close>

lemma start_time_key_not_attr: "lit ''_cell_start_time'' \<notin> set dict_dir"
  by (simp add: dict_dir_def lit_def)

lemma underscore_not_attr: "lit ''_'' \<notin> set dict_dir"
  by (simp add: dict_dir_def lit_def)

lemma post_execute_call_ignores_namespace:
  "post_execute_call h t1 t2 = Inr (PyNone, t2 - t1, cell_content_of h)"
  by (simp add: post_execute_call_def getattr_dict_def start_time_key_not_attr underscore_not_attr)

lemma print_all_stream:
  "sys_stdout w = Some (Stream n) \<Longrightarrow>
     print_all w ls =
       Some (w\<lparr>emitted := emitted w @ concat (map (\<lambda>s. [(n, Wrote s), (n, Wrote [10])]) ls)\<rparr>)"
  by (induction ls arbitrary: w) (simp_all add: py_print_def)

lemma pre_execute_records_start:
  "sys_stdout w = Some (Stream n) \<Longrightarrow>
     map_option fst (pre_execute True h w now) =
       Some (h\<lparr>user_ns := (user_ns h)(lit ''_cell_start_time'' \<mapsto> NsFloat now)\<rparr>)"
  by (simp add: pre_execute_def print_all_stream)

lemma post_execute_summary:
  "post_execute max_digits True h w t1 t2 =
     map_option (\<lambda>v. (v, None))
       (print_all (fst (stop_capture w))
          (post_run_header @ post_run_stats (t2 - t1) (cell_content_of h) @
           [Colors_YELLOW @ [240, 376, 8220, 352] @ lit '' No return value'' @ Colors_END] @
           post_run_footer))"
  by (simp add: post_execute_def post_execute_call_ignores_namespace
      post_run_print_none [OF accepting_all] split: option.splits)

text \<open>
  C1. \<^verbatim>\<open>pre_execute\<close> stores the start time 100 as an item of the namespace, which also holds
  the last result 42. \<^verbatim>\<open>post_execute\<close>, reading the clock at 105 twice, hands to
  \<^verbatim>\<open>post_run_print\<close> the result \<^verbatim>\<open>None\<close> and the execution time 0, not 42 and 5.
\<close>

theorem post_execute_reads_no_item:
  "map_option fst
     (pre_execute True \<lparr>user_ns = [lit ''_'' \<mapsto> NsValue (PyInt 42)],
                         current_cell_content = Some (lit ''6 * 7'')\<rparr>
        (init_capture (Some (Stream 1)) (Some (Stream 2))) 100) =
     Some \<lparr>user_ns = [lit ''_'' \<mapsto> NsValue (PyInt 42), lit ''_cell_start_time'' \<mapsto> NsFloat 100],
           current_cell_content = Some (lit ''6 * 7'')\<rparr> \<and>
   post_execute_call
     \<lparr>user_ns = [lit ''_'' \<mapsto> NsValue (PyInt 42), lit ''_cell_start_time'' \<mapsto> NsFloat 100],
      current_cell_content = Some (lit ''6 * 7'')\<rparr> 105 105 =
     Inr (PyNone, 0, lit ''6 * 7'')"
  by (simp add: post_execute_call_ignores_namespace cell_content_of_def
      pre_execute_records_start init_capture_def)

end
